theory Spec2Isabelle
  imports Complex_Main "HOL-Library.Monad_Syntax" "HOL-Library.AList" "HOL-Library.Multiset"
begin

section \<open>Scalars, vectors and point clouds\<close>

text \<open>
  A C++ \<^verbatim>\<open>double\<close> is modelled as an exact real number or the value \<open>NaN\<close>. Arithmetic
  on finite values is exact (rounding, infinities and signed zeros are not modelled); any
  operation with a \<open>NaN\<close> operand gives \<open>NaN\<close> and any comparison with a \<open>NaN\<close> operand is
  false, as in IEEE 754. The quotient of two zeros is \<open>NaN\<close>; a non-zero value divided by
  zero, an infinity in IEEE 754, has no counterpart here and is given the value \<open>NaN\<close>.

  Member names of the source end in an underscore (\<^verbatim>\<open>points_\<close>, \<^verbatim>\<open>cloudPrev_\<close>); the
  underscore is dropped here, since a constant's name cannot end in one.
\<close>

datatype double = NaN | Fin real

fun isnan :: "double \<Rightarrow> bool" where
  "isnan NaN = True"
| "isnan (Fin _) = False"

instantiation double :: "{zero, plus, minus, times, inverse, ord}"
begin

definition zero_double :: double where
  "zero_double = Fin 0"

fun plus_double :: "double \<Rightarrow> double \<Rightarrow> double" where
  "plus_double (Fin a) (Fin b) = Fin (a + b)"
| "plus_double _ _ = NaN"

fun minus_double :: "double \<Rightarrow> double \<Rightarrow> double" where
  "minus_double (Fin a) (Fin b) = Fin (a - b)"
| "minus_double _ _ = NaN"

fun times_double :: "double \<Rightarrow> double \<Rightarrow> double" where
  "times_double (Fin a) (Fin b) = Fin (a * b)"
| "times_double _ _ = NaN"

fun divide_double :: "double \<Rightarrow> double \<Rightarrow> double" where
  "divide_double (Fin a) (Fin b) = (if b = 0 then NaN else Fin (a / b))"
| "divide_double _ _ = NaN"

fun inverse_double :: "double \<Rightarrow> double" where
  "inverse_double (Fin b) = (if b = 0 then NaN else Fin (1 / b))"
| "inverse_double NaN = NaN"

fun less_double :: "double \<Rightarrow> double \<Rightarrow> bool" where
  "less_double (Fin a) (Fin b) = (a < b)"
| "less_double _ _ = False"

fun less_eq_double :: "double \<Rightarrow> double \<Rightarrow> bool" where
  "less_eq_double (Fin a) (Fin b) = (a \<le> b)"
| "less_eq_double _ _ = False"

instance ..

end

text \<open>The conversion \<^verbatim>\<open>double(n)\<close> of an \<^verbatim>\<open>int\<close>.\<close>

definition double_of_int :: "int \<Rightarrow> double" where
  "double_of_int n = Fin (of_int n)"

text \<open>
  \<^verbatim>\<open>Eigen::Vector3d\<close>, with \<^verbatim>\<open>+\<close>, \<^verbatim>\<open>-\<close>, division by a scalar and \<^verbatim>\<open>maxCoeff\<close>. On finite
  coefficients \<open>maxCoeff\<close> is the largest one; Eigen leaves its result open when a coefficient
  is \<open>NaN\<close>, and the model follows the scalar code (\<^verbatim>\<open>a < b ? b : a\<close>, from the left).
\<close>

datatype Vector3d = Vector3d (vec_x: double) (vec_y: double) (vec_z: double)

instantiation Vector3d :: "{zero, plus, minus}"
begin

definition zero_Vector3d :: Vector3d where
  "zero_Vector3d = Vector3d 0 0 0"

definition plus_Vector3d :: "Vector3d \<Rightarrow> Vector3d \<Rightarrow> Vector3d" where
  "plus_Vector3d u v = Vector3d (vec_x u + vec_x v) (vec_y u + vec_y v) (vec_z u + vec_z v)"

definition minus_Vector3d :: "Vector3d \<Rightarrow> Vector3d \<Rightarrow> Vector3d" where
  "minus_Vector3d u v = Vector3d (vec_x u - vec_x v) (vec_y u - vec_y v) (vec_z u - vec_z v)"

instance ..

end

definition vec_div :: "Vector3d \<Rightarrow> double \<Rightarrow> Vector3d" where
  "vec_div v d = Vector3d (vec_x v / d) (vec_y v / d) (vec_z v / d)"

definition max_double :: "double \<Rightarrow> double \<Rightarrow> double" where
  "max_double a b = (if a < b then b else a)"

definition maxCoeff :: "Vector3d \<Rightarrow> double" where
  "maxCoeff v = max_double (max_double (vec_x v) (vec_y v)) (vec_z v)"

text \<open>
  \<^verbatim>\<open>open3d::geometry::PointCloud\<close>: the points and, index-aligned when present, the normals
  and colors. \<^verbatim>\<open>IsEmpty\<close>, \<^verbatim>\<open>HasNormals\<close> and \<^verbatim>\<open>HasColors\<close> are Open3D's.
\<close>

record PointCloud =
  points :: "Vector3d list"
  normals :: "Vector3d list"
  colors :: "Vector3d list"

definition IsEmpty :: "PointCloud \<Rightarrow> bool" where
  "IsEmpty cloud = (points cloud = [])"

definition HasNormals :: "PointCloud \<Rightarrow> bool" where
  "HasNormals cloud = (length (points cloud) > 0 \<and> length (normals cloud) = length (points cloud))"

definition HasColors :: "PointCloud \<Rightarrow> bool" where
  "HasColors cloud = (length (points cloud) > 0 \<and> length (colors cloud) = length (points cloud))"

section \<open>Lidar odometry (Odometry.cpp)\<close>

text \<open>
  \<^verbatim>\<open>Time\<close> is a tick count. The matrix type \<open>'m\<close> (\<^verbatim>\<open>Eigen::Matrix4d\<close>, and
  \<^verbatim>\<open>Transform\<close>, which is stored as one) is a parameter of the model: \<open>*\<close> and \<open>inverse\<close> on it
  stand for Eigen's product and \<^verbatim>\<open>inverse()\<close>, and nothing is assumed about them. The type
  \<open>'k\<close> is that of the cropping volume an odometry tool set holds.
\<close>

type_synonym Time = int

datatype IcpObjective = PointToPoint | PointToPlane

record ScanProcessingParameters =
  voxelSize :: double
  downSamplingRatio :: double

record ScanMatcherParameters =
  icpObjective :: IcpObjective
  kNNnormalEstimation :: int
  maxCorrespondenceDistance :: double
  maxNumIter :: int

record OdometryToolsParameters =
  scanProcessing :: ScanProcessingParameters
  scanMatcher :: ScanMatcherParameters
  minAcceptableFitness :: double

record ICPConvergenceCriteria =
  max_iteration :: int

text \<open>
  The tool set's own \<^verbatim>\<open>icpObjective_\<close> (the estimation object that \<^verbatim>\<open>icpObjectiveFactory\<close>
  makes from the parameter of the same name) is the field \<open>icpObjectiveEstimation\<close>.
\<close>

record ('m, 'k) LidarOdometryTools =
  params :: OdometryToolsParameters
  cropper :: 'k
  icpObjectiveEstimation :: IcpObjective
  icpTransform :: 'm
  icpConvergenceCriteria :: ICPConvergenceCriteria

record 'm RegistrationResult =
  transformation :: 'm
  fitness :: double
  inlier_rmse :: double

type_synonym 'm TransformInterpolationBuffer = "(Time \<times> 'm) list"

text \<open>
  Modelled from the spec: \<^verbatim>\<open>TransformInterpolationBuffer::push\<close> and \<^verbatim>\<open>size\<close>, whose code is
  not among the sources at hand. The buffer is an append-structure of timestamped poses;
  \<open>push\<close> appends, \<open>size\<close> reports the occupancy. The spec adds that the buffer should
  assert or validate monotonic insertion and does not say what becomes of a push whose
  timestamp goes back in time; the statement about runs with such pushes (an empty first
  cloud, below) therefore names the calls of \<open>push\<close> only and does not depend on what \<open>push\<close>
  is defined to do.
\<close>

definition push :: "Time \<Rightarrow> 'm \<Rightarrow> 'm TransformInterpolationBuffer \<Rightarrow> 'm TransformInterpolationBuffer" where
  "push time tf buffer = buffer @ [(time, tf)]"

definition size_buffer :: "'m TransformInterpolationBuffer \<Rightarrow> nat" where
  "size_buffer buffer = length buffer"

record ('m, 'k) LidarOdometry =
  cloudPrev :: PointCloud
  odomToRangeSensorCumulative :: 'm
  odomToRangeSensorBuffer :: "'m TransformInterpolationBuffer"
  lastMeasurementTimestamp :: Time
  isMapInitializing :: bool
  mapInitializingOdomTools :: "('m, 'k) LidarOdometryTools"
  scanToScanOdomTools :: "('m, 'k) LidarOdometryTools"

text \<open>
  The calls that leave the repository (the cropping volume's \<^verbatim>\<open>crop\<close>, \<^verbatim>\<open>o3d_slam::voxelize\<close>
  and \<^verbatim>\<open>estimateNormals\<close>, Open3D's \<^verbatim>\<open>RandomDownSample\<close>, \<^verbatim>\<open>NormalizeNormals\<close> and
  \<^verbatim>\<open>RegistrationICP\<close>) are parameters of the model, collected in one record. Each may throw,
  which is the result \<open>None\<close>. \<^verbatim>\<open>RandomDownSample\<close> draws from a random generator, so a run of
  several scans takes one such record per call.
\<close>

record ('m, 'k) Pipeline =
  crop :: "'k \<Rightarrow> PointCloud \<Rightarrow> PointCloud option"
  voxelize :: "double \<Rightarrow> PointCloud \<Rightarrow> PointCloud option"
  RandomDownSample :: "PointCloud \<Rightarrow> double \<Rightarrow> PointCloud option"
  estimateNormals :: "int \<Rightarrow> PointCloud \<Rightarrow> PointCloud option"
  NormalizeNormals :: "PointCloud \<Rightarrow> PointCloud option"
  RegistrationICP :: "PointCloud \<Rightarrow> PointCloud \<Rightarrow> double \<Rightarrow> 'm \<Rightarrow> IcpObjective \<Rightarrow>
    ICPConvergenceCriteria \<Rightarrow> 'm RegistrationResult option"

text \<open>Line 49: the tool set of the current mode.\<close>

definition activeTools :: "('m, 'k) LidarOdometry \<Rightarrow> ('m, 'k) LidarOdometryTools" where
  "activeTools s = (if isMapInitializing s then mapInitializingOdomTools s else scanToScanOdomTools s)"

text \<open>Lines 50 to 58: crop, voxelize, random downsampling and, for point-to-plane, normals.\<close>

definition preprocess :: "('m, 'k) Pipeline \<Rightarrow> ('m, 'k) LidarOdometryTools \<Rightarrow> PointCloud \<Rightarrow> PointCloud option" where
  "preprocess lib tools cloud = do {
     croppedCloud \<leftarrow> crop lib (cropper tools) cloud;
     voxelized \<leftarrow> voxelize lib (voxelSize (scanProcessing (params tools))) croppedCloud;
     downSampledCloud \<leftarrow> RandomDownSample lib voxelized (downSamplingRatio (scanProcessing (params tools)));
     if icpObjective (scanMatcher (params tools)) = PointToPlane then do {
       withNormals \<leftarrow> estimateNormals lib (kNNnormalEstimation (scanMatcher (params tools))) downSampledCloud;
       NormalizeNormals lib withNormals
     } else Some downSampledCloud
   }"

text \<open>Lines 60 to 62: the registration of the preprocessed cloud against the reference.\<close>

definition registerScan :: "('m, 'k) Pipeline \<Rightarrow> ('m, 'k) LidarOdometryTools \<Rightarrow> PointCloud \<Rightarrow> PointCloud \<Rightarrow>
    'm RegistrationResult option" where
  "registerScan lib tools reference downSampledCloud =
     RegistrationICP lib reference downSampledCloud (maxCorrespondenceDistance (scanMatcher (params tools)))
       (icpTransform tools) (icpObjectiveEstimation tools) (icpConvergenceCriteria tools)"

text \<open>
  \<^verbatim>\<open>LidarOdometry::addRangeScan\<close>. The result is the returned flag and the object after the
  call, or \<open>None\<close> when a call into the library throws; no member has been written at that
  point, so the exception leaves the object as it was.
\<close>

definition addRangeScan :: "('m::{times,inverse}, 'k) Pipeline \<Rightarrow> ('m, 'k) LidarOdometry \<Rightarrow> PointCloud \<Rightarrow> Time \<Rightarrow>
    (bool \<times> ('m, 'k) LidarOdometry) option" where
  "addRangeScan lib s cloud timestamp =
    (if IsEmpty (cloudPrev s) then
       Some (True, s\<lparr>cloudPrev := cloud,
                     odomToRangeSensorBuffer := push timestamp (odomToRangeSensorCumulative s) (odomToRangeSensorBuffer s),
                     lastMeasurementTimestamp := timestamp\<rparr>)
     else if timestamp < lastMeasurementTimestamp s then Some (False, s)
     else do {
       let tools = activeTools s;
       downSampledCloud \<leftarrow> preprocess lib tools cloud;
       result \<leftarrow> registerScan lib tools (cloudPrev s) downSampledCloud;
       let isOdomOkay = (fitness result > minAcceptableFitness (params tools));
       if \<not> isOdomOkay then
         Some (isOdomOkay, if \<not> IsEmpty downSampledCloud then s\<lparr>cloudPrev := downSampledCloud\<rparr> else s)
       else do {
         let s1 = (if isMapInitializing s then s\<lparr>isMapInitializing := False\<rparr> else s);
         let s2 = s1\<lparr>odomToRangeSensorCumulative := odomToRangeSensorCumulative s1 * inverse (transformation result)\<rparr>;
         let s3 = s2\<lparr>cloudPrev := downSampledCloud\<rparr>;
         let s4 = s3\<lparr>odomToRangeSensorBuffer := push timestamp (odomToRangeSensorCumulative s3) (odomToRangeSensorBuffer s3)\<rparr>;
         let s5 = s4\<lparr>lastMeasurementTimestamp := timestamp\<rparr>;
         Some (isOdomOkay, s5)
       }
     })"


text \<open>
  A run of calls on one object, each with the library's behaviour at that call. The result
  lists what each call returned (\<open>None\<close> for a call that threw) and gives the object after
  the last one.
\<close>

fun addRangeScans :: "(('m::{times,inverse}, 'k) Pipeline \<times> PointCloud \<times> Time) list \<Rightarrow> ('m, 'k) LidarOdometry \<Rightarrow>
    bool option list \<times> ('m, 'k) LidarOdometry" where
  "addRangeScans [] s = ([], s)"
| "addRangeScans ((lib, cloud, timestamp) # calls) s =
     (case addRangeScan lib s cloud timestamp of
        None \<Rightarrow> (let (rs, s') = addRangeScans calls s in (None # rs, s'))
      | Some (b, s1) \<Rightarrow> (let (rs, s') = addRangeScans calls s1 in (Some b # rs, s')))"

section \<open>Voxel downsampling around a position (helpers.cpp)\<close>

record AccumulatedPoint =
  num_of_points :: int
  point :: Vector3d
  normal :: Vector3d
  color :: Vector3d

text \<open>The constructor \<^verbatim>\<open>AccumulatedPoint()\<close>.\<close>

definition AccumulatedPoint_init :: AccumulatedPoint where
  "AccumulatedPoint_init =
     \<lparr>num_of_points = 0, point = Vector3d 0 0 0, normal = Vector3d 0 0 0, color = Vector3d 0 0 0\<rparr>"

text \<open>
  \<^verbatim>\<open>AddPoint\<close> is only called with an index of the cloud's points (the loop of
  \<^verbatim>\<open>voxelizeAroundPosition\<close> runs over them), so the index is a natural number here. The
  counter and the loop index of the source are \<^verbatim>\<open>int\<close>; the model counts in the integers,
  which agrees with the source on clouds of fewer than \<open>2^31\<close> points.
\<close>

definition AddPoint :: "PointCloud \<Rightarrow> nat \<Rightarrow> AccumulatedPoint \<Rightarrow> AccumulatedPoint" where
  "AddPoint cloud index acc =
     acc\<lparr>point := point acc + points cloud ! index,
         normal := (if HasNormals cloud then
                      (if \<not> isnan (vec_x (normals cloud ! index)) \<and> \<not> isnan (vec_y (normals cloud ! index))
                          \<and> \<not> isnan (vec_z (normals cloud ! index))
                       then normal acc + normals cloud ! index else normal acc)
                    else normal acc),
         color := (if HasColors cloud then color acc + colors cloud ! index else color acc),
         num_of_points := num_of_points acc + 1\<rparr>"

definition GetAveragePoint :: "AccumulatedPoint \<Rightarrow> Vector3d" where
  "GetAveragePoint acc = vec_div (point acc) (double_of_int (num_of_points acc))"

definition GetAverageNormal :: "AccumulatedPoint \<Rightarrow> Vector3d" where
  "GetAverageNormal acc = vec_div (normal acc) (double_of_int (num_of_points acc))"

definition GetAverageColor :: "AccumulatedPoint \<Rightarrow> Vector3d" where
  "GetAverageColor acc = vec_div (color acc) (double_of_int (num_of_points acc))"

record AxisAlignedBoundingBox =
  min_bound :: Vector3d
  max_bound :: Vector3d

definition isInside :: "AxisAlignedBoundingBox \<Rightarrow> Vector3d \<Rightarrow> bool" where
  "isInside bbox p =
     (vec_x p \<le> vec_x (max_bound bbox) \<and> vec_y p \<le> vec_y (max_bound bbox) \<and> vec_z p \<le> vec_z (max_bound bbox)
      \<and> vec_x p \<ge> vec_x (min_bound bbox) \<and> vec_y p \<ge> vec_y (min_bound bbox) \<and> vec_z p \<ge> vec_z (min_bound bbox))"

type_synonym Vector3i = "int \<times> int \<times> int"

text \<open>
  \<^verbatim>\<open>computeVoxelBounds\<close> and \<^verbatim>\<open>getVoxelIdx\<close> are declared in \<^verbatim>\<open>Voxel.hpp\<close>, which is not among
  the sources at hand: they are parameters of the model. So is the order in which a
  \<^verbatim>\<open>std::unordered_map\<close> is traversed, which C++ leaves open: the map is an association list
  in order of insertion, and \<open>traverse\<close> gives the entries in the order the range-for visits
  them.
\<close>

record VoxelHelpers =
  computeVoxelBounds :: "PointCloud \<Rightarrow> Vector3d \<Rightarrow> Vector3d \<times> Vector3d"
  getVoxelIdx :: "Vector3d \<Rightarrow> Vector3d \<Rightarrow> Vector3d \<Rightarrow> Vector3d \<Rightarrow> Vector3i"
  traverse :: "(Vector3i \<times> AccumulatedPoint) list \<Rightarrow> (Vector3i \<times> AccumulatedPoint) list"

text \<open>\<^verbatim>\<open>std::numeric_limits<int>::max()\<close>.\<close>

definition INT_MAX :: int where
  "INT_MAX = 2147483647"

text \<open>
  The \<^verbatim>\<open>std::runtime_error\<close> of line 161 (\<^verbatim>\<open>voxel_size is too small\<close>), the only exception
  \<^verbatim>\<open>voxelizeAroundPosition\<close> throws.
\<close>

datatype error = SizeError

text \<open>
  \<^verbatim>\<open>voxelindex_to_accpoint[voxelIdx].AddPoint(cloud, i)\<close>: \<^verbatim>\<open>operator[]\<close> inserts a freshly
  constructed accumulator when the key is new, and the method updates the entry in place.
\<close>

definition at_index :: "Vector3i \<Rightarrow> (Vector3i \<times> AccumulatedPoint) list \<Rightarrow> AccumulatedPoint" where
  "at_index voxelIdx m = (case map_of m voxelIdx of None \<Rightarrow> AccumulatedPoint_init | Some acc \<Rightarrow> acc)"

definition accumulate :: "PointCloud \<Rightarrow> Vector3i \<Rightarrow> nat \<Rightarrow> (Vector3i \<times> AccumulatedPoint) list \<Rightarrow>
    (Vector3i \<times> AccumulatedPoint) list" where
  "accumulate cloud voxelIdx i m = AList.update voxelIdx (AddPoint cloud i (at_index voxelIdx m)) m"

text \<open>The body of the first loop (lines 178 to 191), on the output and the map.\<close>

definition scan_point :: "VoxelHelpers \<Rightarrow> AxisAlignedBoundingBox \<Rightarrow> PointCloud \<Rightarrow> Vector3d \<Rightarrow> Vector3d \<Rightarrow> Vector3d \<Rightarrow>
    nat \<Rightarrow> PointCloud \<times> (Vector3i \<times> AccumulatedPoint) list \<Rightarrow> PointCloud \<times> (Vector3i \<times> AccumulatedPoint) list" where
  "scan_point h bbox cloud voxelSizeVec voxelMinBound voxelMaxBound i st =
     (let output = fst st; voxelindex_to_accpoint = snd st in
      if isInside bbox (points cloud ! i) then
        (let voxelIdx = getVoxelIdx h (points cloud ! i) voxelSizeVec voxelMinBound voxelMaxBound
         in (output, accumulate cloud voxelIdx i voxelindex_to_accpoint))
      else
        (output\<lparr>points := points output @ [points cloud ! i],
                normals := (if HasNormals cloud then normals output @ [normals cloud ! i] else normals output),
                colors := (if HasColors cloud then colors output @ [colors cloud ! i] else colors output)\<rparr>,
         voxelindex_to_accpoint))"

text \<open>The body of the second loop (lines 193 to 201).\<close>

definition emit_voxel :: "PointCloud \<Rightarrow> Vector3i \<times> AccumulatedPoint \<Rightarrow> PointCloud \<Rightarrow> PointCloud" where
  "emit_voxel cloud accpoint output =
     output\<lparr>points := points output @ [GetAveragePoint (snd accpoint)],
            normals := (if HasNormals cloud then normals output @ [GetAverageNormal (snd accpoint)] else normals output),
            colors := (if HasColors cloud then colors output @ [GetAverageColor (snd accpoint)] else colors output)\<rparr>"

definition voxelizeAroundPosition :: "VoxelHelpers \<Rightarrow> double \<Rightarrow> AxisAlignedBoundingBox \<Rightarrow> PointCloud \<Rightarrow> error + PointCloud" where
  "voxelizeAroundPosition h voxel_size bbox cloud =
     (if voxel_size \<le> 0 then Inr cloud
      else
        (let voxelSizeVec = Vector3d voxel_size voxel_size voxel_size;
             voxelBounds = computeVoxelBounds h cloud voxelSizeVec;
             voxelMinBound = fst voxelBounds;
             voxelMaxBound = snd voxelBounds
         in if voxel_size * double_of_int INT_MAX < maxCoeff (voxelMaxBound - voxelMinBound) then Inl SizeError
            else
              (let st = fold (scan_point h bbox cloud voxelSizeVec voxelMinBound voxelMaxBound)
                          [0..<length (points cloud)] (\<lparr>points = [], normals = [], colors = []\<rparr>, [])
               in Inr (fold (emit_voxel cloud) (traverse h (snd st)) (fst st)))))"

section \<open>Statement devices and concrete data\<close>

text \<open>
  A call reaches the acceptance test (line 65) with the preprocessed cloud
  \<open>downSampledCloud\<close> and the registration result \<open>result\<close>: a reference cloud is stored, the
  timestamp is not out of order, and the library calls of lines 50 to 62 return these.
\<close>

definition reachesAcceptanceTest :: "('m, 'k) Pipeline \<Rightarrow> ('m, 'k) LidarOdometry \<Rightarrow> PointCloud \<Rightarrow> Time \<Rightarrow>
    PointCloud \<Rightarrow> 'm RegistrationResult \<Rightarrow> bool" where
  "reachesAcceptanceTest lib s cloud timestamp downSampledCloud result =
     (\<not> IsEmpty (cloudPrev s) \<and> \<not> timestamp < lastMeasurementTimestamp s
      \<and> preprocess lib (activeTools s) cloud = Some downSampledCloud
      \<and> registerScan lib (activeTools s) (cloudPrev s) downSampledCloud = Some result)"

text \<open>
  For the statements about \<^verbatim>\<open>voxelizeAroundPosition\<close>: the largest extent of the voxel bounds,
  which the size check of line 160 compares with; the voxel index the first loop computes
  for the point at an index; the indices of the points outside and inside the box, in input
  order; the in-box indices that fall into a given voxel; the sum of a list of vectors in
  the order in which the source accumulates it, from zero; a normal none of whose
  coefficients is \<open>NaN\<close>; and the real number a finite \<^verbatim>\<open>double\<close> stands for.
\<close>

definition voxel_extent :: "VoxelHelpers \<Rightarrow> double \<Rightarrow> PointCloud \<Rightarrow> double" where
  "voxel_extent h voxel_size cloud =
     (let voxelBounds = computeVoxelBounds h cloud (Vector3d voxel_size voxel_size voxel_size)
      in maxCoeff (snd voxelBounds - fst voxelBounds))"

definition voxel_of :: "VoxelHelpers \<Rightarrow> double \<Rightarrow> PointCloud \<Rightarrow> nat \<Rightarrow> Vector3i" where
  "voxel_of h voxel_size cloud i =
     (let voxelBounds = computeVoxelBounds h cloud (Vector3d voxel_size voxel_size voxel_size)
      in getVoxelIdx h (points cloud ! i) (Vector3d voxel_size voxel_size voxel_size) (fst voxelBounds) (snd voxelBounds))"

definition outside_indices :: "AxisAlignedBoundingBox \<Rightarrow> PointCloud \<Rightarrow> nat list" where
  "outside_indices bbox cloud = filter (\<lambda>i. \<not> isInside bbox (points cloud ! i)) [0..<length (points cloud)]"

definition inside_indices :: "AxisAlignedBoundingBox \<Rightarrow> PointCloud \<Rightarrow> nat list" where
  "inside_indices bbox cloud = filter (\<lambda>i. isInside bbox (points cloud ! i)) [0..<length (points cloud)]"

definition voxel_members :: "VoxelHelpers \<Rightarrow> double \<Rightarrow> AxisAlignedBoundingBox \<Rightarrow> PointCloud \<Rightarrow> Vector3i \<Rightarrow> nat list" where
  "voxel_members h voxel_size bbox cloud k = filter (\<lambda>i. voxel_of h voxel_size cloud i = k) (inside_indices bbox cloud)"

definition vec_sum :: "Vector3d list \<Rightarrow> Vector3d" where
  "vec_sum vs = foldl (+) (Vector3d 0 0 0) vs"

definition valid_normal :: "Vector3d \<Rightarrow> bool" where
  "valid_normal n = (\<not> isnan (vec_x n) \<and> \<not> isnan (vec_y n) \<and> \<not> isnan (vec_z n))"

fun real_of_double :: "double \<Rightarrow> real" where
  "real_of_double (Fin r) = r"
| "real_of_double NaN = 0"

text \<open>
  The mean of the points at the indices \<open>is\<close>, and the two readings of a voxel's normal: the
  sum of the valid normals divided by the number of valid normals, and the same sum divided
  by the number of all points of the voxel.
\<close>

definition mean_point :: "PointCloud \<Rightarrow> nat list \<Rightarrow> Vector3d" where
  "mean_point cloud is = vec_div (vec_sum (map ((!) (points cloud)) is)) (double_of_int (int (length is)))"

definition mean_of_valid_normals :: "PointCloud \<Rightarrow> nat list \<Rightarrow> Vector3d" where
  "mean_of_valid_normals cloud is =
     vec_div (vec_sum (filter valid_normal (map ((!) (normals cloud)) is)))
       (double_of_int (int (length (filter valid_normal (map ((!) (normals cloud)) is)))))"

definition valid_normals_over_all :: "PointCloud \<Rightarrow> nat list \<Rightarrow> Vector3d" where
  "valid_normals_over_all cloud is =
     vec_div (vec_sum (filter valid_normal (map ((!) (normals cloud)) is))) (double_of_int (int (length is)))"

definition mean_color :: "PointCloud \<Rightarrow> nat list \<Rightarrow> Vector3d" where
  "mean_color cloud is = vec_div (vec_sum (map ((!) (colors cloud)) is)) (double_of_int (int (length is)))"

text \<open>
  Concrete data for instances of the theorems: a tool set, a freshly set up odometry in
  map-initializing mode, a cloud of two points, and a library whose preprocessing stages
  return their input and whose registration reports a given fitness. The matrix type is
  instantiated with the reals.
\<close>

definition example_tools :: "(real, unit) LidarOdometryTools" where
  "example_tools =
     \<lparr>params = \<lparr>scanProcessing = \<lparr>voxelSize = Fin 0, downSamplingRatio = Fin 1\<rparr>,
                scanMatcher = \<lparr>icpObjective = PointToPoint, kNNnormalEstimation = 5,
                               maxCorrespondenceDistance = Fin 1, maxNumIter = 50\<rparr>,
                minAcceptableFitness = Fin (1 / 2)\<rparr>,
      cropper = (), icpObjectiveEstimation = PointToPoint, icpTransform = 1,
      icpConvergenceCriteria = \<lparr>max_iteration = 50\<rparr>\<rparr>"

definition example_odometry :: "(real, unit) LidarOdometry" where
  "example_odometry =
     \<lparr>cloudPrev = \<lparr>points = [], normals = [], colors = []\<rparr>,
      odomToRangeSensorCumulative = 1, odomToRangeSensorBuffer = [], lastMeasurementTimestamp = 0,
      isMapInitializing = True, mapInitializingOdomTools = example_tools,
      scanToScanOdomTools = example_tools\<rparr>"

definition example_cloud :: PointCloud where
  "example_cloud =
     \<lparr>points = [Vector3d (Fin 1) (Fin 2) (Fin 3), Vector3d (Fin 4) (Fin 5) (Fin 6)], normals = [], colors = []\<rparr>"

definition example_empty_cloud :: PointCloud where
  "example_empty_cloud = \<lparr>points = [], normals = [], colors = []\<rparr>"

definition example_pipeline :: "double \<Rightarrow> (real, unit) Pipeline" where
  "example_pipeline f =
     \<lparr>crop = (\<lambda>k c. Some c), voxelize = (\<lambda>v c. Some c), RandomDownSample = (\<lambda>c r. Some c),
      estimateNormals = (\<lambda>k c. Some c), NormalizeNormals = Some,
      RegistrationICP = (\<lambda>reference target d T obj criteria.
        Some \<lparr>transformation = 2, fitness = f, inlier_rmse = Fin 0\<rparr>)\<rparr>"

text \<open>The odometry after a first scan at time 10, and after a second, accepted one at time 20.\<close>

definition example_odometry1 :: "(real, unit) LidarOdometry" where
  "example_odometry1 =
     example_odometry\<lparr>cloudPrev := example_cloud, odomToRangeSensorBuffer := [(10, 1)],
                      lastMeasurementTimestamp := 10\<rparr>"

definition example_odometry2 :: "(real, unit) LidarOdometry" where
  "example_odometry2 =
     example_odometry1\<lparr>isMapInitializing := False, odomToRangeSensorCumulative := 1 / 2,
                       odomToRangeSensorBuffer := [(10, 1), (20, 1 / 2)], lastMeasurementTimestamp := 20\<rparr>"

text \<open>
  Modelled from the spec: \<^verbatim>\<open>computeVoxelBounds\<close> and \<^verbatim>\<open>getVoxelIdx\<close>, whose code is not among the
  sources at hand. The grid is anchored at the cloud's bounding box minimum, and a position
  is quantized by the integer floor of its offset from that anchor divided by the voxel
  size. The bounding box is Open3D's \<^verbatim>\<open>GetMinBound\<close> and \<^verbatim>\<open>GetMaxBound\<close> (coefficient-wise
  minimum and maximum, zero for an empty cloud). These serve as the concrete helpers of the
  instances below; the theorems hold for any helpers.
\<close>

definition min_double :: "double \<Rightarrow> double \<Rightarrow> double" where
  "min_double a b = (if b < a then b else a)"

definition cwiseMin :: "Vector3d \<Rightarrow> Vector3d \<Rightarrow> Vector3d" where
  "cwiseMin u v = Vector3d (min_double (vec_x u) (vec_x v)) (min_double (vec_y u) (vec_y v)) (min_double (vec_z u) (vec_z v))"

definition cwiseMax :: "Vector3d \<Rightarrow> Vector3d \<Rightarrow> Vector3d" where
  "cwiseMax u v = Vector3d (max_double (vec_x u) (vec_x v)) (max_double (vec_y u) (vec_y v)) (max_double (vec_z u) (vec_z v))"

definition GetMinBound :: "PointCloud \<Rightarrow> Vector3d" where
  "GetMinBound cloud = (case points cloud of [] \<Rightarrow> Vector3d 0 0 0 | p # ps \<Rightarrow> foldl cwiseMin p ps)"

definition GetMaxBound :: "PointCloud \<Rightarrow> Vector3d" where
  "GetMaxBound cloud = (case points cloud of [] \<Rightarrow> Vector3d 0 0 0 | p # ps \<Rightarrow> foldl cwiseMax p ps)"

definition computeVoxelBounds_spec :: "PointCloud \<Rightarrow> Vector3d \<Rightarrow> Vector3d \<times> Vector3d" where
  "computeVoxelBounds_spec cloud voxelSizeVec = (GetMinBound cloud, GetMaxBound cloud)"

fun floor_double :: "double \<Rightarrow> int" where
  "floor_double (Fin r) = \<lfloor>r\<rfloor>"
| "floor_double NaN = 0"

definition getVoxelIdx_spec :: "Vector3d \<Rightarrow> Vector3d \<Rightarrow> Vector3d \<Rightarrow> Vector3d \<Rightarrow> Vector3i" where
  "getVoxelIdx_spec p voxelSizeVec voxelMinBound voxelMaxBound =
     (floor_double ((vec_x p - vec_x voxelMinBound) / vec_x voxelSizeVec),
      floor_double ((vec_y p - vec_y voxelMinBound) / vec_y voxelSizeVec),
      floor_double ((vec_z p - vec_z voxelMinBound) / vec_z voxelSizeVec))"

text \<open>
  A scan of four points with normals: two in one voxel (the second with an invalid normal),
  one outside the box, one in a second voxel. The map is traversed against the order of
  insertion.
\<close>

definition example_helpers :: VoxelHelpers where
  "example_helpers =
     \<lparr>computeVoxelBounds = computeVoxelBounds_spec, getVoxelIdx = getVoxelIdx_spec, traverse = rev\<rparr>"

definition example_bbox :: AxisAlignedBoundingBox where
  "example_bbox = \<lparr>min_bound = Vector3d (Fin 0) (Fin 0) (Fin 0), max_bound = Vector3d (Fin 2) (Fin 2) (Fin 2)\<rparr>"

definition example_scan :: PointCloud where
  "example_scan =
     \<lparr>points = [Vector3d (Fin 0) (Fin 0) (Fin 0), Vector3d (Fin (1 / 2)) (Fin 0) (Fin 0),
                Vector3d (Fin 5) (Fin 5) (Fin 5), Vector3d (Fin (3 / 2)) (Fin 0) (Fin 0)],
      normals = [Vector3d (Fin 1) (Fin 0) (Fin 0), Vector3d NaN (Fin 0) (Fin 0),
                 Vector3d (Fin 0) (Fin 0) (Fin 1), Vector3d (Fin 0) (Fin 1) (Fin 0)],
      colors = []\<rparr>"

lemma less_double_irrefl: "\<not> (d::double) < d"
  by (cases d) simp_all

lemmas example_defs =
  example_tools_def example_odometry_def example_cloud_def example_pipeline_def
  example_odometry1_def example_odometry2_def

lemmas addRangeScan_defs =
  addRangeScan_def preprocess_def registerScan_def activeTools_def push_def IsEmpty_def size_buffer_def

lemma example_first_scan:
  "addRangeScan (example_pipeline f) example_odometry example_cloud 10 = Some (True, example_odometry1)"
  by (simp add: addRangeScan_defs example_defs)

lemma addRangeScan_True_stamp:
  "addRangeScan lib s cloud timestamp = Some (True, s') \<Longrightarrow> lastMeasurementTimestamp s' = timestamp"
  unfolding addRangeScan_def Let_def
  by (auto split: if_splits Option.bind_splits)

section \<open>Out-of-order scans\<close>

lemma example_second_scan:
  "addRangeScan (example_pipeline (Fin 1)) example_odometry1 example_cloud 20 = Some (True, example_odometry2)"
  by (simp add: addRangeScan_defs example_defs Let_def)

lemma addRangeScan_guard:
  "\<not> IsEmpty (cloudPrev s) \<Longrightarrow> timestamp < lastMeasurementTimestamp s \<Longrightarrow>
     addRangeScan lib s cloud timestamp = Some (False, s)"
  by (simp add: addRangeScan_def)

text \<open>
  C1, as the code has it. A call whose timestamp is strictly less than the last processed
  timestamp, made while a reference cloud is stored, returns false and leaves the whole
  object as it was (reference cloud, cumulative transform, buffer, last timestamp, mode
  flag). In a run of three calls at \<open>t1 < t2\<close> and \<open>t1\<close> again in which the second scan has
  been processed (its call returned true) and has left a reference cloud, the third call
  returns false and the run ends in the object the second call left, so with the buffer at
  the size it had then.
\<close>

theorem addRangeScan_out_of_order:
  "(\<not> IsEmpty (cloudPrev s) \<and> timestamp < lastMeasurementTimestamp s \<longrightarrow>
      addRangeScan lib s cloud timestamp = Some (False, s)) \<and>
   (t1 < t2 \<and> addRangeScan lib1 s0 cloud1 t1 = Some (b1, s1) \<and>
    addRangeScan lib2 s1 cloud2 t2 = Some (True, s2) \<and> \<not> IsEmpty (cloudPrev s2) \<longrightarrow>
      addRangeScan lib3 s2 cloud3 t1 = Some (False, s2) \<and>
      addRangeScans [(lib1, cloud1, t1), (lib2, cloud2, t2), (lib3, cloud3, t1)] s0 =
        ([Some b1, Some True, Some False], s2))"
proof -
  have third: "addRangeScan lib3 s2 cloud3 t1 = Some (False, s2)"
    if "t1 < t2" and "addRangeScan lib2 s1 cloud2 t2 = Some (True, s2)" and "\<not> IsEmpty (cloudPrev s2)"
  proof -
    have "lastMeasurementTimestamp s2 = t2"
      using that(2) by (rule addRangeScan_True_stamp)
    with that(1,3) show ?thesis
      by (simp add: addRangeScan_guard)
  qed
  show ?thesis
  proof (intro conjI impI)
    assume "\<not> IsEmpty (cloudPrev s) \<and> timestamp < lastMeasurementTimestamp s"
    then show "addRangeScan lib s cloud timestamp = Some (False, s)"
      by (simp add: addRangeScan_guard)
  next
    assume a: "t1 < t2 \<and> addRangeScan lib1 s0 cloud1 t1 = Some (b1, s1) \<and>
      addRangeScan lib2 s1 cloud2 t2 = Some (True, s2) \<and> \<not> IsEmpty (cloudPrev s2)"
    then show "addRangeScan lib3 s2 cloud3 t1 = Some (False, s2)"
      using third by blast
  next
    assume a: "t1 < t2 \<and> addRangeScan lib1 s0 cloud1 t1 = Some (b1, s1) \<and>
      addRangeScan lib2 s1 cloud2 t2 = Some (True, s2) \<and> \<not> IsEmpty (cloudPrev s2)"
    then have "addRangeScan lib3 s2 cloud3 t1 = Some (False, s2)"
      using third by blast
    with a show "addRangeScans [(lib1, cloud1, t1), (lib2, cloud2, t2), (lib3, cloud3, t1)] s0 =
        ([Some b1, Some True, Some False], s2)"
      by simp
  qed
qed

theorem addRangeScan_out_of_order_witness:
  "\<not> IsEmpty (cloudPrev example_odometry2) \<and> (10::int) < lastMeasurementTimestamp example_odometry2
   \<and> addRangeScan (example_pipeline (Fin 1)) example_odometry example_cloud 10 = Some (True, example_odometry1)
   \<and> addRangeScan (example_pipeline (Fin 1)) example_odometry1 example_cloud 20 = Some (True, example_odometry2)
   \<and> addRangeScan (example_pipeline (Fin 1)) example_odometry2 example_cloud 10 = Some (False, example_odometry2)
   \<and> addRangeScans [(example_pipeline (Fin 1), example_cloud, 10), (example_pipeline (Fin 1), example_cloud, 20),
        (example_pipeline (Fin 1), example_cloud, 10)] example_odometry =
        ([Some True, Some True, Some False], example_odometry2)
   \<and> size_buffer (odomToRangeSensorBuffer example_odometry2) = 2"
proof -
  have h1: "\<not> IsEmpty (cloudPrev example_odometry2)"
    by (simp add: IsEmpty_def example_defs)
  have h2: "(10::int) < lastMeasurementTimestamp example_odometry2"
    by (simp add: example_defs)
  have h3: "(10::int) < 20"
    by simp
  have sz: "size_buffer (odomToRangeSensorBuffer example_odometry2) = 2"
    by (simp add: size_buffer_def example_odometry2_def)
  note inst = addRangeScan_out_of_order [of example_odometry2 10 "example_pipeline (Fin 1)" example_cloud
      10 20 "example_pipeline (Fin 1)" example_odometry example_cloud True example_odometry1
      "example_pipeline (Fin 1)" example_cloud example_odometry2 "example_pipeline (Fin 1)" example_cloud]
  show ?thesis
    using inst h1 h2 h3 sz example_first_scan [of "Fin 1"] example_second_scan
    by blast
qed

text \<open>
  Without that premise the third call need not be out of order. A rejected scan does not
  advance the last processed timestamp: after a first scan at 10 and a rejected one at 20,
  a third call at 10 is registered, accepted here, and the buffer grows from one pose to
  two.
\<close>

theorem addRangeScan_out_of_order_counterexample:
  "(10::int) < 20
   \<and> addRangeScans [(example_pipeline (Fin 0), example_cloud, 10), (example_pipeline (Fin 0), example_cloud, 20)]
         example_odometry = ([Some True, Some False], example_odometry1)
   \<and> size_buffer (odomToRangeSensorBuffer example_odometry1) = 1
   \<and> addRangeScan (example_pipeline (Fin 1)) example_odometry1 example_cloud 10 =
       Some (True, example_odometry1\<lparr>isMapInitializing := False, odomToRangeSensorCumulative := 1 / 2,
                                     odomToRangeSensorBuffer := [(10, 1), (10, 1 / 2)]\<rparr>)
   \<and> addRangeScans [(example_pipeline (Fin 0), example_cloud, 10), (example_pipeline (Fin 0), example_cloud, 20),
         (example_pipeline (Fin 1), example_cloud, 10)] example_odometry =
       ([Some True, Some False, Some True],
        example_odometry1\<lparr>isMapInitializing := False, odomToRangeSensorCumulative := 1 / 2,
                          odomToRangeSensorBuffer := [(10, 1), (10, 1 / 2)]\<rparr>)
   \<and> size_buffer (odomToRangeSensorBuffer
         (example_odometry1\<lparr>isMapInitializing := False, odomToRangeSensorCumulative := 1 / 2,
                            odomToRangeSensorBuffer := [(10, 1), (10, 1 / 2)]\<rparr>)) = 2"
  by (simp add: addRangeScan_defs example_defs Let_def)

section \<open>The first scan\<close>

lemma addRangeScan_no_reference:
  "IsEmpty (cloudPrev s) \<Longrightarrow>
     addRangeScan lib s cloud timestamp =
       Some (True, s\<lparr>cloudPrev := cloud,
                     odomToRangeSensorBuffer := push timestamp (odomToRangeSensorCumulative s) (odomToRangeSensorBuffer s),
                     lastMeasurementTimestamp := timestamp\<rparr>)"
  by (simp add: addRangeScan_def)

text \<open>
  C2. While no reference cloud is stored, a call with a non-empty cloud at \<open>t0\<close> returns
  true, whatever the library would do (nothing is registered); it stores the cloud as the
  reference, pushes \<open>(t0, cumulative transform)\<close> and records \<open>t0\<close>, and leaves the cumulative
  transform and the mode flag as they were. On the first call ever, the buffer being empty,
  the buffer then holds that one pose and has size 1.
\<close>

theorem addRangeScan_first_scan:
  assumes "IsEmpty (cloudPrev s)" and "\<not> IsEmpty cloud"
  shows "\<exists>s'. (\<forall>lib'. addRangeScan lib' s cloud t0 = Some (True, s'))
           \<and> addRangeScan lib s cloud t0 = Some (True, s')
           \<and> cloudPrev s' = cloud \<and> \<not> IsEmpty (cloudPrev s')
           \<and> odomToRangeSensorBuffer s' = push t0 (odomToRangeSensorCumulative s) (odomToRangeSensorBuffer s)
           \<and> size_buffer (odomToRangeSensorBuffer s') = size_buffer (odomToRangeSensorBuffer s) + 1
           \<and> lastMeasurementTimestamp s' = t0
           \<and> odomToRangeSensorCumulative s' = odomToRangeSensorCumulative s
           \<and> isMapInitializing s' = isMapInitializing s
           \<and> (odomToRangeSensorBuffer s = [] \<longrightarrow>
                odomToRangeSensorBuffer s' = [(t0, odomToRangeSensorCumulative s)]
                \<and> size_buffer (odomToRangeSensorBuffer s') = 1)"
  using assms by (simp add: addRangeScan_no_reference push_def size_buffer_def)

theorem addRangeScan_first_scan_witness:
  "IsEmpty (cloudPrev example_odometry) \<and> \<not> IsEmpty example_cloud
   \<and> odomToRangeSensorBuffer example_odometry = []
   \<and> addRangeScan (example_pipeline (Fin 0)) example_odometry example_cloud 10 = Some (True, example_odometry1)
   \<and> cloudPrev example_odometry1 = example_cloud
   \<and> odomToRangeSensorBuffer example_odometry1 = [(10, odomToRangeSensorCumulative example_odometry)]
   \<and> size_buffer (odomToRangeSensorBuffer example_odometry1) = 1
   \<and> lastMeasurementTimestamp example_odometry1 = 10"
proof -
  have h1: "IsEmpty (cloudPrev example_odometry)"
    by (simp add: IsEmpty_def example_odometry_def)
  have h2: "\<not> IsEmpty example_cloud"
    by (simp add: IsEmpty_def example_cloud_def)
  have h3: "odomToRangeSensorBuffer example_odometry = []"
    by (simp add: example_odometry_def)
  show ?thesis
    using addRangeScan_first_scan [OF h1 h2, of 10 "example_pipeline (Fin 0)"] h1 h2 h3
      example_first_scan [of "Fin 0"]
    by auto
qed

section \<open>Registered scans\<close>

lemma addRangeScan_registered:
  assumes "reachesAcceptanceTest lib s cloud timestamp downSampledCloud result"
  shows "addRangeScan lib s cloud timestamp =
     (if minAcceptableFitness (params (activeTools s)) < fitness result then
        Some (True, s\<lparr>isMapInitializing := False,
                      odomToRangeSensorCumulative := odomToRangeSensorCumulative s * inverse (transformation result),
                      cloudPrev := downSampledCloud,
                      odomToRangeSensorBuffer :=
                        push timestamp (odomToRangeSensorCumulative s * inverse (transformation result))
                          (odomToRangeSensorBuffer s),
                      lastMeasurementTimestamp := timestamp\<rparr>)
      else Some (False, if IsEmpty downSampledCloud then s else s\<lparr>cloudPrev := downSampledCloud\<rparr>))"
proof -
  have flag: "(if isMapInitializing s then s\<lparr>isMapInitializing := False\<rparr> else s) = s\<lparr>isMapInitializing := False\<rparr>"
    by simp
  show ?thesis
    using assms unfolding reachesAcceptanceTest_def addRangeScan_def Let_def flag
    by simp
qed

lemma example_reaches:
  "reachesAcceptanceTest (example_pipeline f) example_odometry1 example_cloud 20 example_cloud
     \<lparr>transformation = 2, fitness = f, inlier_rmse = Fin 0\<rparr>"
  by (simp add: reachesAcceptanceTest_def addRangeScan_defs example_defs)

lemma example_odometry1_reference:
  "example_odometry1\<lparr>cloudPrev := example_cloud\<rparr> = example_odometry1"
  by (simp add: example_odometry1_def)

lemma example_threshold:
  "minAcceptableFitness (params (activeTools example_odometry1)) = Fin (1 / 2)"
  by (simp add: activeTools_def example_defs)

text \<open>
  C3. A scan that has been registered is accepted exactly when the registration fitness is
  strictly greater than \<open>minAcceptableFitness\<close> of the active tool set: the call returns the
  value of that comparison, and a fitness equal to the threshold makes it return false.
\<close>

theorem addRangeScan_accepted_iff:
  assumes "reachesAcceptanceTest lib s cloud timestamp downSampledCloud result"
  shows "(\<exists>s'. addRangeScan lib s cloud timestamp =
            Some (minAcceptableFitness (params (activeTools s)) < fitness result, s'))
         \<and> (fitness result = minAcceptableFitness (params (activeTools s)) \<longrightarrow>
              (\<exists>s'. addRangeScan lib s cloud timestamp = Some (False, s')))"
  using addRangeScan_registered [OF assms] by (simp add: less_double_irrefl)

theorem addRangeScan_accepted_iff_witness:
  "reachesAcceptanceTest (example_pipeline (Fin (1 / 2))) example_odometry1 example_cloud 20 example_cloud
     \<lparr>transformation = 2, fitness = Fin (1 / 2), inlier_rmse = Fin 0\<rparr>
   \<and> fitness \<lparr>transformation = 2::real, fitness = Fin (1 / 2), inlier_rmse = Fin 0\<rparr> =
       minAcceptableFitness (params (activeTools example_odometry1))
   \<and> addRangeScan (example_pipeline (Fin (1 / 2))) example_odometry1 example_cloud 20 =
       Some (False, example_odometry1)"
proof -
  have h: "fitness \<lparr>transformation = 2::real, fitness = Fin (1 / 2), inlier_rmse = Fin 0\<rparr> =
       minAcceptableFitness (params (activeTools example_odometry1))"
    by (simp add: example_threshold)
  have ne: "\<not> IsEmpty example_cloud"
    by (simp add: IsEmpty_def example_cloud_def)
  have "\<exists>s'. addRangeScan (example_pipeline (Fin (1 / 2))) example_odometry1 example_cloud 20 = Some (False, s')"
    using addRangeScan_accepted_iff [OF example_reaches [of "Fin (1 / 2)"]] h by blast
  moreover have "s' = example_odometry1"
    if "addRangeScan (example_pipeline (Fin (1 / 2))) example_odometry1 example_cloud 20 = Some (False, s')" for s'
    using that addRangeScan_registered [OF example_reaches [of "Fin (1 / 2)"]] ne
    by (simp add: example_threshold example_odometry1_reference)
  ultimately show ?thesis
    using example_reaches [of "Fin (1 / 2)"] h by blast
qed

text \<open>
  C4. A registered scan whose fitness is not above the threshold makes the call return
  false. The reference cloud becomes the preprocessed cloud when that one is non-empty and
  stays as it was otherwise; the cumulative transform, the buffer (contents and size), the
  last processed timestamp and everything else in the object are unchanged.
\<close>

theorem addRangeScan_rejected:
  assumes "reachesAcceptanceTest lib s cloud timestamp downSampledCloud result"
    and "\<not> minAcceptableFitness (params (activeTools s)) < fitness result"
  shows "\<exists>s'. addRangeScan lib s cloud timestamp = Some (False, s')
           \<and> s' = s\<lparr>cloudPrev := (if IsEmpty downSampledCloud then cloudPrev s else downSampledCloud)\<rparr>
           \<and> cloudPrev s' = (if IsEmpty downSampledCloud then cloudPrev s else downSampledCloud)
           \<and> odomToRangeSensorCumulative s' = odomToRangeSensorCumulative s
           \<and> odomToRangeSensorBuffer s' = odomToRangeSensorBuffer s
           \<and> size_buffer (odomToRangeSensorBuffer s') = size_buffer (odomToRangeSensorBuffer s)
           \<and> lastMeasurementTimestamp s' = lastMeasurementTimestamp s"
  using addRangeScan_registered [OF assms(1)] assms(2) by simp

theorem addRangeScan_rejected_witness:
  "reachesAcceptanceTest (example_pipeline (Fin (1 / 4))) example_odometry1 example_cloud 20 example_cloud
     \<lparr>transformation = 2, fitness = Fin (1 / 4), inlier_rmse = Fin 0\<rparr>
   \<and> \<not> minAcceptableFitness (params (activeTools example_odometry1)) <
         fitness \<lparr>transformation = 2::real, fitness = Fin (1 / 4), inlier_rmse = Fin 0\<rparr>
   \<and> addRangeScan (example_pipeline (Fin (1 / 4))) example_odometry1 example_cloud 20 =
       Some (False, example_odometry1)
   \<and> cloudPrev example_odometry1 = example_cloud"
proof -
  have h: "\<not> minAcceptableFitness (params (activeTools example_odometry1)) <
         fitness \<lparr>transformation = 2::real, fitness = Fin (1 / 4), inlier_rmse = Fin 0\<rparr>"
    by (simp add: example_threshold)
  have ne: "\<not> IsEmpty example_cloud"
    by (simp add: IsEmpty_def example_cloud_def)
  have c: "cloudPrev example_odometry1 = example_cloud"
    by (simp add: example_odometry1_def)
  show ?thesis
    using addRangeScan_rejected [OF example_reaches [of "Fin (1 / 4)"] h] example_reaches [of "Fin (1 / 4)"] h ne c
    by (auto simp: example_odometry1_reference)
qed

text \<open>
  C5. A registered scan whose fitness is strictly above the threshold makes the call return
  true. The cumulative transform becomes its old value multiplied on the right by the
  inverse of the registration's transform, the reference cloud becomes the preprocessed
  cloud, \<open>(timestamp, new cumulative transform)\<close> is pushed onto the buffer, and the last
  processed timestamp becomes this scan's.
\<close>

theorem addRangeScan_accepted:
  assumes "reachesAcceptanceTest lib s cloud timestamp downSampledCloud result"
    and "minAcceptableFitness (params (activeTools s)) < fitness result"
  shows "\<exists>s'. addRangeScan lib s cloud timestamp = Some (True, s')
           \<and> odomToRangeSensorCumulative s' = odomToRangeSensorCumulative s * inverse (transformation result)
           \<and> cloudPrev s' = downSampledCloud
           \<and> odomToRangeSensorBuffer s' =
               push timestamp (odomToRangeSensorCumulative s') (odomToRangeSensorBuffer s)
           \<and> size_buffer (odomToRangeSensorBuffer s') = size_buffer (odomToRangeSensorBuffer s) + 1
           \<and> lastMeasurementTimestamp s' = timestamp"
  using addRangeScan_registered [OF assms(1)] assms(2) by (simp add: push_def size_buffer_def)

theorem addRangeScan_accepted_witness:
  "reachesAcceptanceTest (example_pipeline (Fin 1)) example_odometry1 example_cloud 20 example_cloud
     \<lparr>transformation = 2, fitness = Fin 1, inlier_rmse = Fin 0\<rparr>
   \<and> minAcceptableFitness (params (activeTools example_odometry1)) <
         fitness \<lparr>transformation = 2::real, fitness = Fin 1, inlier_rmse = Fin 0\<rparr>
   \<and> addRangeScan (example_pipeline (Fin 1)) example_odometry1 example_cloud 20 = Some (True, example_odometry2)
   \<and> odomToRangeSensorCumulative example_odometry2 =
       odomToRangeSensorCumulative example_odometry1 * inverse 2
   \<and> odomToRangeSensorBuffer example_odometry2 = [(10, 1), (20, 1 / 2)]
   \<and> lastMeasurementTimestamp example_odometry2 = 20"
proof -
  have h: "minAcceptableFitness (params (activeTools example_odometry1)) <
         fitness \<lparr>transformation = 2::real, fitness = Fin 1, inlier_rmse = Fin 0\<rparr>"
    by (simp add: example_threshold)
  show ?thesis
    using addRangeScan_accepted [OF example_reaches [of "Fin 1"] h] example_reaches [of "Fin 1"] h
      example_second_scan
    by (auto simp: example_odometry2_def example_odometry1_def example_odometry_def)
qed

section \<open>The mode flag\<close>

lemma addRangeScan_flag:
  assumes "addRangeScan lib s cloud timestamp = Some (b, s')"
  shows "isMapInitializing s' = (isMapInitializing s \<and> (IsEmpty (cloudPrev s) \<or> \<not> b))"
  using assms unfolding addRangeScan_def Let_def
  by (auto split: if_splits Option.bind_splits)

lemma addRangeScans_flag:
  "\<not> isMapInitializing s \<Longrightarrow> \<not> isMapInitializing (snd (addRangeScans calls s))"
proof (induction calls arbitrary: s)
  case Nil
  then show ?case by simp
next
  case (Cons call calls)
  obtain lib cloud timestamp where call: "call = (lib, cloud, timestamp)"
    by (cases call) auto
  show ?case
  proof (cases "addRangeScan lib s cloud timestamp")
    case None
    with Cons call show ?thesis
      by (simp add: split_beta)
  next
    case (Some r)
    obtain b s1 where r: "r = (b, s1)"
      by (cases r) auto
    have "\<not> isMapInitializing s1"
      using addRangeScan_flag [of lib s cloud timestamp b s1] Some r Cons.prems by simp
    then have "\<not> isMapInitializing (snd (addRangeScans calls s1))"
      by (rule Cons.IH)
    with Some r call show ?thesis
      by (simp add: split_beta)
  qed
qed

text \<open>
  C6, as the code has it. The flag is cleared by a call exactly when that call returns true
  from an object that already holds a reference cloud, that is, when a registered scan is
  accepted; the first-scan branch also returns true but leaves the flag as it is. Once the
  flag is clear, no run of further calls (accepted, rejected, out of order or throwing)
  sets it again.
\<close>

theorem addRangeScan_mode_transition:
  "(addRangeScan lib s cloud timestamp = Some (b, s') \<longrightarrow>
      isMapInitializing s' = (isMapInitializing s \<and> (IsEmpty (cloudPrev s) \<or> \<not> b))) \<and>
   (reachesAcceptanceTest lib1 s1 cloud1 timestamp1 downSampledCloud result \<and>
    minAcceptableFitness (params (activeTools s1)) < fitness result \<longrightarrow>
      (\<exists>s2. addRangeScan lib1 s1 cloud1 timestamp1 = Some (True, s2) \<and> \<not> isMapInitializing s2)) \<and>
   (\<not> isMapInitializing s3 \<longrightarrow> \<not> isMapInitializing (snd (addRangeScans calls s3)))"
proof (intro conjI impI)
  assume "addRangeScan lib s cloud timestamp = Some (b, s')"
  then show "isMapInitializing s' = (isMapInitializing s \<and> (IsEmpty (cloudPrev s) \<or> \<not> b))"
    by (rule addRangeScan_flag)
next
  assume a: "reachesAcceptanceTest lib1 s1 cloud1 timestamp1 downSampledCloud result \<and>
    minAcceptableFitness (params (activeTools s1)) < fitness result"
  then show "\<exists>s2. addRangeScan lib1 s1 cloud1 timestamp1 = Some (True, s2) \<and> \<not> isMapInitializing s2"
    using addRangeScan_registered [of lib1 s1 cloud1 timestamp1 downSampledCloud result] by simp
next
  assume "\<not> isMapInitializing s3"
  then show "\<not> isMapInitializing (snd (addRangeScans calls s3))"
    by (rule addRangeScans_flag)
qed

theorem addRangeScan_mode_transition_counterexample:
  "isMapInitializing example_odometry
   \<and> addRangeScan (example_pipeline (Fin 1)) example_odometry example_cloud 10 = Some (True, example_odometry1)
   \<and> isMapInitializing example_odometry1"
  using example_first_scan [of "Fin 1"] by (simp add: example_odometry_def example_odometry1_def)

theorem addRangeScan_mode_transition_witness:
  "addRangeScan (example_pipeline (Fin 1)) example_odometry1 example_cloud 20 = Some (True, example_odometry2)
   \<and> isMapInitializing example_odometry1 \<and> \<not> IsEmpty (cloudPrev example_odometry1)
   \<and> \<not> isMapInitializing example_odometry2
   \<and> reachesAcceptanceTest (example_pipeline (Fin 1)) example_odometry1 example_cloud 20 example_cloud
       \<lparr>transformation = 2, fitness = Fin 1, inlier_rmse = Fin 0\<rparr>
   \<and> minAcceptableFitness (params (activeTools example_odometry1)) <
         fitness \<lparr>transformation = 2::real, fitness = Fin 1, inlier_rmse = Fin 0\<rparr>
   \<and> \<not> isMapInitializing (snd (addRangeScans
         [(example_pipeline (Fin 0), example_cloud, 30), (example_pipeline (Fin 1), example_cloud, 5)]
         example_odometry2))"
proof -
  have h1: "isMapInitializing example_odometry1"
    by (simp add: example_odometry1_def example_odometry_def)
  have h2: "\<not> IsEmpty (cloudPrev example_odometry1)"
    by (simp add: example_odometry1_def example_cloud_def IsEmpty_def)
  have h3: "minAcceptableFitness (params (activeTools example_odometry1)) <
         fitness \<lparr>transformation = 2::real, fitness = Fin 1, inlier_rmse = Fin 0\<rparr>"
    by (simp add: example_threshold)
  have h4: "\<not> isMapInitializing example_odometry2"
    by (simp add: example_odometry2_def)
  note inst = addRangeScan_mode_transition [of "example_pipeline (Fin 1)" example_odometry1 example_cloud 20
      True example_odometry2 "example_pipeline (Fin 1)" example_odometry1 example_cloud 20 example_cloud
      "\<lparr>transformation = 2, fitness = Fin 1, inlier_rmse = Fin 0\<rparr>" example_odometry2
      "[(example_pipeline (Fin 0), example_cloud, 30), (example_pipeline (Fin 1), example_cloud, 5)]"]
  show ?thesis
    using inst h1 h2 h3 h4 example_second_scan example_reaches [of "Fin 1"]
    by blast
qed

section \<open>An empty first cloud\<close>

lemma addRangeScans_empty_clouds:
  "IsEmpty (cloudPrev s) \<Longrightarrow> \<forall>call \<in> set calls. IsEmpty (fst (snd call)) \<Longrightarrow>
     fst (addRangeScans calls s) = map (\<lambda>call. Some True) calls
     \<and> IsEmpty (cloudPrev (snd (addRangeScans calls s)))
     \<and> odomToRangeSensorBuffer (snd (addRangeScans calls s)) =
         fold (\<lambda>call. push (snd (snd call)) (odomToRangeSensorCumulative s)) calls (odomToRangeSensorBuffer s)
     \<and> odomToRangeSensorCumulative (snd (addRangeScans calls s)) = odomToRangeSensorCumulative s"
proof (induction calls arbitrary: s)
  case Nil
  then show ?case by simp
next
  case (Cons call calls)
  obtain lib cloud timestamp where call: "call = (lib, cloud, timestamp)"
    by (cases call) auto
  define s1 where "s1 = s\<lparr>cloudPrev := cloud,
       odomToRangeSensorBuffer := push timestamp (odomToRangeSensorCumulative s) (odomToRangeSensorBuffer s),
       lastMeasurementTimestamp := timestamp\<rparr>"
  have step: "addRangeScan lib s cloud timestamp = Some (True, s1)"
    using Cons.prems(1) by (simp add: addRangeScan_no_reference s1_def)
  have "IsEmpty cloud"
    using Cons.prems(2) call by simp
  then have e1: "IsEmpty (cloudPrev s1)"
    by (simp add: s1_def)
  have rest: "\<forall>call \<in> set calls. IsEmpty (fst (snd call))"
    using Cons.prems(2) by simp
  note ih = Cons.IH [OF e1 rest]
  have c1: "odomToRangeSensorCumulative s1 = odomToRangeSensorCumulative s"
    and b1: "odomToRangeSensorBuffer s1 =
      push timestamp (odomToRangeSensorCumulative s) (odomToRangeSensorBuffer s)"
    by (simp_all add: s1_def)
  show ?case
    using ih step call c1 b1 by (simp add: split_beta)
qed

text \<open>
  C10. While the stored reference cloud is empty, every call, with any cloud, any timestamp
  and any library behaviour, takes the first-scan branch: it returns true, stores the cloud
  it was given and calls \<open>push\<close> once, with its timestamp and the unchanged cumulative
  transform. A run of calls with empty clouds from such an object therefore returns true
  every time, leaves the reference empty and the cumulative transform as it was, and makes
  one call of \<open>push\<close> per call, in order, whatever the timestamps are.
\<close>

theorem addRangeScan_empty_first_cloud:
  "(IsEmpty (cloudPrev s) \<longrightarrow>
      (\<exists>s'. (\<forall>lib'. addRangeScan lib' s cloud timestamp = Some (True, s'))
         \<and> addRangeScan lib s cloud timestamp = Some (True, s')
         \<and> cloudPrev s' = cloud
         \<and> odomToRangeSensorBuffer s' = push timestamp (odomToRangeSensorCumulative s) (odomToRangeSensorBuffer s)
         \<and> odomToRangeSensorCumulative s' = odomToRangeSensorCumulative s)) \<and>
   (IsEmpty (cloudPrev s0) \<and> (\<forall>call \<in> set calls. IsEmpty (fst (snd call))) \<longrightarrow>
      fst (addRangeScans calls s0) = map (\<lambda>call. Some True) calls
      \<and> IsEmpty (cloudPrev (snd (addRangeScans calls s0)))
      \<and> odomToRangeSensorCumulative (snd (addRangeScans calls s0)) = odomToRangeSensorCumulative s0
      \<and> odomToRangeSensorBuffer (snd (addRangeScans calls s0)) =
          fold (\<lambda>call. push (snd (snd call)) (odomToRangeSensorCumulative s0)) calls
            (odomToRangeSensorBuffer s0))"
proof (intro conjI impI)
  assume "IsEmpty (cloudPrev s)"
  then show "\<exists>s'. (\<forall>lib'. addRangeScan lib' s cloud timestamp = Some (True, s'))
         \<and> addRangeScan lib s cloud timestamp = Some (True, s')
         \<and> cloudPrev s' = cloud
         \<and> odomToRangeSensorBuffer s' = push timestamp (odomToRangeSensorCumulative s) (odomToRangeSensorBuffer s)
         \<and> odomToRangeSensorCumulative s' = odomToRangeSensorCumulative s"
    by (simp add: addRangeScan_no_reference)
next
  assume a: "IsEmpty (cloudPrev s0) \<and> (\<forall>call \<in> set calls. IsEmpty (fst (snd call)))"
  note r = addRangeScans_empty_clouds [of s0 calls]
  from a r show "fst (addRangeScans calls s0) = map (\<lambda>call. Some True) calls"
    by blast
  from a r show "IsEmpty (cloudPrev (snd (addRangeScans calls s0)))"
    by blast
  from a r show "odomToRangeSensorCumulative (snd (addRangeScans calls s0)) = odomToRangeSensorCumulative s0"
    by blast
  from a r show "odomToRangeSensorBuffer (snd (addRangeScans calls s0)) =
          fold (\<lambda>call. push (snd (snd call)) (odomToRangeSensorCumulative s0)) calls
            (odomToRangeSensorBuffer s0)"
    by blast
qed

theorem addRangeScan_empty_first_cloud_witness:
  "IsEmpty (cloudPrev example_odometry) \<and> IsEmpty example_empty_cloud
   \<and> fst (addRangeScans [(example_pipeline (Fin 0), example_empty_cloud, 30),
         (example_pipeline (Fin 0), example_empty_cloud, 10),
         (example_pipeline (Fin 0), example_empty_cloud, 20)] example_odometry) = [Some True, Some True, Some True]
   \<and> IsEmpty (cloudPrev (snd (addRangeScans [(example_pipeline (Fin 0), example_empty_cloud, 30),
         (example_pipeline (Fin 0), example_empty_cloud, 10),
         (example_pipeline (Fin 0), example_empty_cloud, 20)] example_odometry)))
   \<and> odomToRangeSensorBuffer (snd (addRangeScans [(example_pipeline (Fin 0), example_empty_cloud, 30),
         (example_pipeline (Fin 0), example_empty_cloud, 10),
         (example_pipeline (Fin 0), example_empty_cloud, 20)] example_odometry)) =
       push 20 1 (push 10 1 (push 30 1 []))"
proof -
  have h1: "IsEmpty (cloudPrev example_odometry)"
    by (simp add: IsEmpty_def example_odometry_def)
  have h2: "IsEmpty example_empty_cloud"
    by (simp add: IsEmpty_def example_empty_cloud_def)
  have b: "odomToRangeSensorBuffer example_odometry = []"
    and c: "odomToRangeSensorCumulative example_odometry = 1"
    by (simp_all add: example_odometry_def)
  note inst = addRangeScan_empty_first_cloud [of example_odometry example_empty_cloud 30
      "example_pipeline (Fin 0)" example_odometry
      "[(example_pipeline (Fin 0), example_empty_cloud, 30), (example_pipeline (Fin 0), example_empty_cloud, 10),
        (example_pipeline (Fin 0), example_empty_cloud, 20)]"]
  show ?thesis
    using inst h1 h2 by (simp add: b c)
qed

section \<open>Voxel accumulation\<close>

lemma at_index_accumulate:
  "at_index k (accumulate cloud k' i m) = (if k' = k then AddPoint cloud i (at_index k m) else at_index k m)"
  by (simp add: at_index_def accumulate_def AList.update_conv')

lemma at_index_fold_accumulate:
  "at_index k (fold (\<lambda>i. accumulate cloud (key i) i) js m) =
     fold (AddPoint cloud) (filter (\<lambda>i. key i = k) js) (at_index k m)"
  by (induction js arbitrary: m) (simp_all add: at_index_accumulate)

lemma keys_fold_accumulate:
  "fst ` set (fold (\<lambda>i. accumulate cloud (key i) i) js m) = fst ` set m \<union> key ` set js"
  by (induction js arbitrary: m) (auto simp: accumulate_def AList.dom_update)

lemma distinct_fold_accumulate:
  "distinct (map fst m) \<Longrightarrow> distinct (map fst (fold (\<lambda>i. accumulate cloud (key i) i) js m))"
  by (induction js arbitrary: m) (simp_all add: accumulate_def AList.distinct_update)

lemma at_index_entry:
  "distinct (map fst m) \<Longrightarrow> (k, acc) \<in> set m \<Longrightarrow> at_index k m = acc"
  by (simp add: at_index_def)

lemma fold_scan_point:
  "fold (scan_point h bbox cloud vsz lo hi) js (out, m) =
     (out\<lparr>points := points out @ map ((!) (points cloud)) (filter (\<lambda>i. \<not> isInside bbox (points cloud ! i)) js),
          normals := (if HasNormals cloud
                      then normals out @ map ((!) (normals cloud)) (filter (\<lambda>i. \<not> isInside bbox (points cloud ! i)) js)
                      else normals out),
          colors := (if HasColors cloud
                     then colors out @ map ((!) (colors cloud)) (filter (\<lambda>i. \<not> isInside bbox (points cloud ! i)) js)
                     else colors out)\<rparr>,
      fold (\<lambda>i. accumulate cloud (getVoxelIdx h (points cloud ! i) vsz lo hi) i)
        (filter (\<lambda>i. isInside bbox (points cloud ! i)) js) m)"
  by (induction js arbitrary: out m) (simp_all add: scan_point_def Let_def)

lemma fold_emit_voxel:
  "fold (emit_voxel cloud) es out =
     out\<lparr>points := points out @ map (\<lambda>e. GetAveragePoint (snd e)) es,
         normals := (if HasNormals cloud then normals out @ map (\<lambda>e. GetAverageNormal (snd e)) es else normals out),
         colors := (if HasColors cloud then colors out @ map (\<lambda>e. GetAverageColor (snd e)) es else colors out)\<rparr>"
  by (induction es arbitrary: out) (simp_all add: emit_voxel_def)

lemma fold_AddPoint:
  "fold (AddPoint cloud) is acc =
     \<lparr>num_of_points = num_of_points acc + int (length is),
      point = foldl (+) (point acc) (map ((!) (points cloud)) is),
      normal = (if HasNormals cloud
                then foldl (+) (normal acc) (filter valid_normal (map ((!) (normals cloud)) is))
                else normal acc),
      color = (if HasColors cloud then foldl (+) (color acc) (map ((!) (colors cloud)) is) else color acc)\<rparr>"
  by (induction "is" arbitrary: acc) (simp_all add: AddPoint_def valid_normal_def)

lemma averages_fold_AddPoint:
  "GetAveragePoint (fold (AddPoint cloud) is AccumulatedPoint_init) = mean_point cloud is"
  "HasNormals cloud \<Longrightarrow>
     GetAverageNormal (fold (AddPoint cloud) is AccumulatedPoint_init) = valid_normals_over_all cloud is"
  "HasColors cloud \<Longrightarrow>
     GetAverageColor (fold (AddPoint cloud) is AccumulatedPoint_init) = mean_color cloud is"
  by (simp_all add: fold_AddPoint GetAveragePoint_def GetAverageNormal_def GetAverageColor_def
      AccumulatedPoint_init_def mean_point_def valid_normals_over_all_def mean_color_def vec_sum_def)

lemma at_index_Nil: "at_index k [] = AccumulatedPoint_init"
  by (simp add: at_index_def)

lemma voxelize_output:
  assumes pos: "\<not> voxel_size \<le> 0"
    and rng: "\<not> voxel_size * double_of_int INT_MAX < voxel_extent h voxel_size cloud"
    and perm: "\<forall>m. mset (traverse h m) = mset m"
  shows "\<exists>ks. distinct ks \<and> set ks = voxel_of h voxel_size cloud ` set (inside_indices bbox cloud) \<and>
     voxelizeAroundPosition h voxel_size bbox cloud =
       Inr \<lparr>points = map ((!) (points cloud)) (outside_indices bbox cloud)
                      @ map (\<lambda>k. mean_point cloud (voxel_members h voxel_size bbox cloud k)) ks,
            normals = (if HasNormals cloud
                       then map ((!) (normals cloud)) (outside_indices bbox cloud)
                            @ map (\<lambda>k. valid_normals_over_all cloud (voxel_members h voxel_size bbox cloud k)) ks
                       else []),
            colors = (if HasColors cloud
                      then map ((!) (colors cloud)) (outside_indices bbox cloud)
                           @ map (\<lambda>k. mean_color cloud (voxel_members h voxel_size bbox cloud k)) ks
                      else [])\<rparr>"
proof -
  define M where "M = fold (\<lambda>i. accumulate cloud (voxel_of h voxel_size cloud i) i) (inside_indices bbox cloud) []"
  define es where "es = traverse h M"
  define ks where "ks = map fst es"
  have dM: "distinct (map fst M)"
    unfolding M_def by (rule distinct_fold_accumulate) simp
  have mes: "mset es = mset M"
    using perm by (simp add: es_def)
  then have ses: "set es = set M"
    by (rule mset_eq_setD)
  have "mset (map fst es) = mset (map fst M)"
    using mes by (metis mset_map)
  then have dks: "distinct ks"
    using dM unfolding ks_def by (metis distinct_count_atmost_1 set_mset_mset)
  have sks: "set ks = voxel_of h voxel_size cloud ` set (inside_indices bbox cloud)"
    unfolding ks_def using ses by (simp add: M_def keys_fold_accumulate)
  have entry: "snd e = fold (AddPoint cloud) (voxel_members h voxel_size bbox cloud (fst e)) AccumulatedPoint_init"
    if "e \<in> set es" for e
  proof -
    have "(fst e, snd e) \<in> set M"
      using that ses by simp
    then have "at_index (fst e) M = snd e"
      using dM by (rule at_index_entry [rotated])
    moreover have "at_index (fst e) M =
        fold (AddPoint cloud) (voxel_members h voxel_size bbox cloud (fst e)) AccumulatedPoint_init"
      unfolding M_def by (simp add: at_index_fold_accumulate voxel_members_def at_index_Nil)
    ultimately show ?thesis by simp
  qed
  have pts: "map (\<lambda>e. GetAveragePoint (snd e)) es =
      map (\<lambda>k. mean_point cloud (voxel_members h voxel_size bbox cloud k)) ks"
    unfolding ks_def by (simp add: entry averages_fold_AddPoint(1))
  have nrm: "map (\<lambda>e. GetAverageNormal (snd e)) es =
      map (\<lambda>k. valid_normals_over_all cloud (voxel_members h voxel_size bbox cloud k)) ks" if "HasNormals cloud"
    unfolding ks_def using that by (simp add: entry averages_fold_AddPoint(2))
  have col: "map (\<lambda>e. GetAverageColor (snd e)) es =
      map (\<lambda>k. mean_color cloud (voxel_members h voxel_size bbox cloud k)) ks" if "HasColors cloud"
    unfolding ks_def using that by (simp add: entry averages_fold_AddPoint(3))
  have key: "(\<lambda>i. accumulate cloud
        (getVoxelIdx h (points cloud ! i) (Vector3d voxel_size voxel_size voxel_size)
           (fst (computeVoxelBounds h cloud (Vector3d voxel_size voxel_size voxel_size)))
           (snd (computeVoxelBounds h cloud (Vector3d voxel_size voxel_size voxel_size)))) i) =
      (\<lambda>i. accumulate cloud (voxel_of h voxel_size cloud i) i)"
    by (simp add: voxel_of_def Let_def)
  have "voxelizeAroundPosition h voxel_size bbox cloud =
      Inr (fold (emit_voxel cloud) es
        \<lparr>points = map ((!) (points cloud)) (outside_indices bbox cloud),
         normals = (if HasNormals cloud then map ((!) (normals cloud)) (outside_indices bbox cloud) else []),
         colors = (if HasColors cloud then map ((!) (colors cloud)) (outside_indices bbox cloud) else [])\<rparr>)"
    using pos rng
    unfolding voxelizeAroundPosition_def voxel_extent_def Let_def fold_scan_point key
    by (simp add: es_def M_def outside_indices_def inside_indices_def)
  then have "voxelizeAroundPosition h voxel_size bbox cloud =
       Inr \<lparr>points = map ((!) (points cloud)) (outside_indices bbox cloud)
                      @ map (\<lambda>k. mean_point cloud (voxel_members h voxel_size bbox cloud k)) ks,
            normals = (if HasNormals cloud
                       then map ((!) (normals cloud)) (outside_indices bbox cloud)
                            @ map (\<lambda>k. valid_normals_over_all cloud (voxel_members h voxel_size bbox cloud k)) ks
                       else []),
            colors = (if HasColors cloud
                      then map ((!) (colors cloud)) (outside_indices bbox cloud)
                           @ map (\<lambda>k. mean_color cloud (voxel_members h voxel_size bbox cloud k)) ks
                      else [])\<rparr>"
    by (simp add: fold_emit_voxel pts nrm col)
  with dks sks show ?thesis
    by blast
qed

section \<open>A concrete scan\<close>

lemma upt_4: "[0..<4] = [0, 1, 2, 3]"
  by (simp add: upt_rec)

lemmas voxel_defs =
  voxelizeAroundPosition_def scan_point_def emit_voxel_def accumulate_def at_index_def AddPoint_def
  GetAveragePoint_def GetAverageNormal_def GetAverageColor_def AccumulatedPoint_init_def isInside_def
  HasNormals_def HasColors_def maxCoeff_def max_double_def vec_div_def double_of_int_def INT_MAX_def
  plus_Vector3d_def minus_Vector3d_def zero_double_def

lemmas example_voxel_defs =
  example_helpers_def example_bbox_def example_scan_def computeVoxelBounds_spec_def getVoxelIdx_spec_def
  GetMinBound_def GetMaxBound_def cwiseMin_def cwiseMax_def min_double_def

lemma example_extent: "voxel_extent example_helpers vs example_scan = Fin 5"
  by (simp add: voxel_extent_def Let_def voxel_defs example_voxel_defs)

lemma example_voxelize:
  "voxelizeAroundPosition example_helpers (Fin 1) example_bbox example_scan =
     Inr \<lparr>points = [Vector3d (Fin 5) (Fin 5) (Fin 5), Vector3d (Fin (3 / 2)) (Fin 0) (Fin 0),
                    Vector3d (Fin (1 / 4)) (Fin 0) (Fin 0)],
          normals = [Vector3d (Fin 0) (Fin 0) (Fin 1), Vector3d (Fin 0) (Fin 1) (Fin 0),
                     Vector3d (Fin (1 / 2)) (Fin 0) (Fin 0)],
          colors = []\<rparr>"
  by (simp add: Let_def voxel_defs example_voxel_defs upt_4)

section \<open>The size check\<close>

lemma positive_double: "0 < (d::double) \<Longrightarrow> \<not> d \<le> 0"
  by (cases d) (simp_all add: zero_double_def)

lemma example_positive: "(0::double) < Fin 1"
  by (simp add: zero_double_def)

lemma example_in_range: "\<not> Fin 1 * double_of_int INT_MAX < voxel_extent example_helpers (Fin 1) example_scan"
  by (simp add: example_extent double_of_int_def INT_MAX_def)

lemma example_traverse: "\<forall>m. mset (traverse example_helpers m) = mset m"
  by (simp add: example_helpers_def)

text \<open>
  C7. \<^verbatim>\<open>voxelizeAroundPosition\<close> throws (the error of line 161) exactly when the voxel size
  is not at most zero and the voxel size times the largest \<^verbatim>\<open>int\<close> is less than the largest
  extent of the cloud's voxel bounds. So for a positive voxel size it throws when that
  product is less than the extent, and returns an output cloud when it is not.
\<close>

theorem voxelizeAroundPosition_size_check:
  "((voxelizeAroundPosition h voxel_size bbox cloud = Inl SizeError) =
      (\<not> voxel_size \<le> 0 \<and> voxel_size * double_of_int INT_MAX < voxel_extent h voxel_size cloud))
   \<and> (0 < voxel_size \<longrightarrow>
        ((voxelizeAroundPosition h voxel_size bbox cloud = Inl SizeError) =
           (voxel_size * double_of_int INT_MAX < voxel_extent h voxel_size cloud))
        \<and> ((\<exists>output. voxelizeAroundPosition h voxel_size bbox cloud = Inr output) =
           (\<not> voxel_size * double_of_int INT_MAX < voxel_extent h voxel_size cloud)))"
  using positive_double [of voxel_size]
  by (auto simp: voxelizeAroundPosition_def voxel_extent_def Let_def)

theorem voxelizeAroundPosition_size_check_witness:
  "(0::double) < Fin (1 / 10 ^ 10)
   \<and> Fin (1 / 10 ^ 10) * double_of_int INT_MAX < voxel_extent example_helpers (Fin (1 / 10 ^ 10)) example_scan
   \<and> voxelizeAroundPosition example_helpers (Fin (1 / 10 ^ 10)) example_bbox example_scan = Inl SizeError
   \<and> (0::double) < Fin 1
   \<and> \<not> Fin 1 * double_of_int INT_MAX < voxel_extent example_helpers (Fin 1) example_scan
   \<and> voxelizeAroundPosition example_helpers (Fin 1) example_bbox example_scan \<noteq> Inl SizeError"
proof -
  have p: "(0::double) < Fin (1 / 10 ^ 10)"
    by (simp add: zero_double_def)
  have g: "Fin (1 / 10 ^ 10) * double_of_int INT_MAX < voxel_extent example_helpers (Fin (1 / 10 ^ 10)) example_scan"
    by (simp add: example_extent double_of_int_def INT_MAX_def)
  show ?thesis
    using voxelizeAroundPosition_size_check [of example_helpers "Fin (1 / 10 ^ 10)" example_bbox example_scan]
      voxelizeAroundPosition_size_check [of example_helpers "Fin 1" example_bbox example_scan]
      p g example_positive example_in_range
    by simp
qed

section \<open>Box membership and voxel averages\<close>

lemma inside_indices_inclusive:
  "set (inside_indices bbox cloud) =
     {i. i < length (points cloud)
        \<and> vec_x (min_bound bbox) \<le> vec_x (points cloud ! i) \<and> vec_x (points cloud ! i) \<le> vec_x (max_bound bbox)
        \<and> vec_y (min_bound bbox) \<le> vec_y (points cloud ! i) \<and> vec_y (points cloud ! i) \<le> vec_y (max_bound bbox)
        \<and> vec_z (min_bound bbox) \<le> vec_z (points cloud ! i) \<and> vec_z (points cloud ! i) \<le> vec_z (max_bound bbox)}"
  by (auto simp: inside_indices_def isInside_def)

lemma outside_indices_complement:
  "set (outside_indices bbox cloud) = {i. i < length (points cloud)} - set (inside_indices bbox cloud)"
  by (auto simp: inside_indices_def outside_indices_def)

lemma example_outside: "outside_indices example_bbox example_scan = [2]"
  by (simp add: outside_indices_def isInside_def example_bbox_def example_scan_def upt_4)

lemma example_inside: "inside_indices example_bbox example_scan = [0, 1, 3]"
  by (simp add: inside_indices_def isInside_def example_bbox_def example_scan_def upt_4)

lemma example_HasNormals: "HasNormals example_scan"
  by (simp add: HasNormals_def example_scan_def)

text \<open>
  C9. For a positive voxel size that passes the size check (and any order of traversal of
  the voxel map), the output consists of the points outside the box, in input order and
  unchanged, followed by one averaged point for each occupied voxel, the occupied voxels
  being those of the in-box points; the normals and colors of the outside points are
  carried over unchanged in the same positions when the cloud has them. A point is in the
  box when each coordinate lies between the box bounds, bounds included, and only the
  in-box points enter the averages.
\<close>

theorem voxelizeAroundPosition_partition:
  assumes "0 < voxel_size"
    and "\<not> voxel_size * double_of_int INT_MAX < voxel_extent h voxel_size cloud"
    and "\<forall>m. mset (traverse h m) = mset m"
  shows "\<exists>ks output. voxelizeAroundPosition h voxel_size bbox cloud = Inr output
      \<and> distinct ks \<and> set ks = voxel_of h voxel_size cloud ` set (inside_indices bbox cloud)
      \<and> points output = map ((!) (points cloud)) (outside_indices bbox cloud)
                         @ map (\<lambda>k. mean_point cloud (voxel_members h voxel_size bbox cloud k)) ks
      \<and> (HasNormals cloud \<longrightarrow>
            normals output = map ((!) (normals cloud)) (outside_indices bbox cloud)
                             @ map (\<lambda>k. valid_normals_over_all cloud (voxel_members h voxel_size bbox cloud k)) ks)
      \<and> (HasColors cloud \<longrightarrow>
            colors output = map ((!) (colors cloud)) (outside_indices bbox cloud)
                            @ map (\<lambda>k. mean_color cloud (voxel_members h voxel_size bbox cloud k)) ks)
      \<and> length (points output) =
          length (outside_indices bbox cloud) + card (voxel_of h voxel_size cloud ` set (inside_indices bbox cloud))
      \<and> set (inside_indices bbox cloud) =
          {i. i < length (points cloud)
            \<and> vec_x (min_bound bbox) \<le> vec_x (points cloud ! i) \<and> vec_x (points cloud ! i) \<le> vec_x (max_bound bbox)
            \<and> vec_y (min_bound bbox) \<le> vec_y (points cloud ! i) \<and> vec_y (points cloud ! i) \<le> vec_y (max_bound bbox)
            \<and> vec_z (min_bound bbox) \<le> vec_z (points cloud ! i) \<and> vec_z (points cloud ! i) \<le> vec_z (max_bound bbox)}
      \<and> set (outside_indices bbox cloud) = {i. i < length (points cloud)} - set (inside_indices bbox cloud)"
proof -
  obtain ks where ks: "distinct ks" "set ks = voxel_of h voxel_size cloud ` set (inside_indices bbox cloud)"
    and out: "voxelizeAroundPosition h voxel_size bbox cloud =
       Inr \<lparr>points = map ((!) (points cloud)) (outside_indices bbox cloud)
                      @ map (\<lambda>k. mean_point cloud (voxel_members h voxel_size bbox cloud k)) ks,
            normals = (if HasNormals cloud
                       then map ((!) (normals cloud)) (outside_indices bbox cloud)
                            @ map (\<lambda>k. valid_normals_over_all cloud (voxel_members h voxel_size bbox cloud k)) ks
                       else []),
            colors = (if HasColors cloud
                      then map ((!) (colors cloud)) (outside_indices bbox cloud)
                           @ map (\<lambda>k. mean_color cloud (voxel_members h voxel_size bbox cloud k)) ks
                      else [])\<rparr>"
    using voxelize_output [OF positive_double [OF assms(1)] assms(2) assms(3), of bbox] by blast
  have len: "length ks = card (voxel_of h voxel_size cloud ` set (inside_indices bbox cloud))"
    using ks by (metis distinct_card)
  show ?thesis
    apply (rule exI [of _ ks])
    apply (rule exI)
    apply (rule conjI [OF out])
    apply (simp add: ks len inside_indices_inclusive [symmetric] outside_indices_complement)
    done
qed

theorem voxelizeAroundPosition_partition_witness:
  "(0::double) < Fin 1
   \<and> \<not> Fin 1 * double_of_int INT_MAX < voxel_extent example_helpers (Fin 1) example_scan
   \<and> (\<forall>m. mset (traverse example_helpers m) = mset m)
   \<and> outside_indices example_bbox example_scan = [2]
   \<and> inside_indices example_bbox example_scan = [0, 1, 3]
   \<and> voxelizeAroundPosition example_helpers (Fin 1) example_bbox example_scan =
       Inr \<lparr>points = [Vector3d (Fin 5) (Fin 5) (Fin 5), Vector3d (Fin (3 / 2)) (Fin 0) (Fin 0),
                      Vector3d (Fin (1 / 4)) (Fin 0) (Fin 0)],
            normals = [Vector3d (Fin 0) (Fin 0) (Fin 1), Vector3d (Fin 0) (Fin 1) (Fin 0),
                       Vector3d (Fin (1 / 2)) (Fin 0) (Fin 0)],
            colors = []\<rparr>"
  using voxelizeAroundPosition_partition [OF example_positive example_in_range example_traverse, of example_bbox]
    example_positive example_in_range example_traverse example_outside example_inside example_voxelize
  by blast

text \<open>
  C8, as the code has it. With normals present, each occupied voxel's output point is the
  mean of the positions of the in-box points mapped to that voxel, and its output normal is
  the sum of the valid normals among those points (those with no \<open>NaN\<close> coefficient) divided
  by the number of all points mapped to the voxel, those with an invalid normal included.
  \<^verbatim>\<open>GetAveragePoint\<close> and \<^verbatim>\<open>GetAverageNormal\<close> give these values on any accumulator built by
  \<^verbatim>\<open>AddPoint\<close>.
\<close>

theorem voxelizeAroundPosition_voxel_average:
  assumes "0 < voxel_size"
    and "\<not> voxel_size * double_of_int INT_MAX < voxel_extent h voxel_size cloud"
    and "\<forall>m. mset (traverse h m) = mset m"
    and "HasNormals cloud"
  shows "(\<exists>ks output. voxelizeAroundPosition h voxel_size bbox cloud = Inr output
      \<and> distinct ks \<and> set ks = voxel_of h voxel_size cloud ` set (inside_indices bbox cloud)
      \<and> drop (length (outside_indices bbox cloud)) (points output) =
          map (\<lambda>k. mean_point cloud (voxel_members h voxel_size bbox cloud k)) ks
      \<and> drop (length (outside_indices bbox cloud)) (normals output) =
          map (\<lambda>k. valid_normals_over_all cloud (voxel_members h voxel_size bbox cloud k)) ks)
    \<and> GetAveragePoint (fold (AddPoint cloud) is AccumulatedPoint_init) = mean_point cloud is
    \<and> GetAverageNormal (fold (AddPoint cloud) is AccumulatedPoint_init) = valid_normals_over_all cloud is"
proof -
  obtain ks where ks: "distinct ks" "set ks = voxel_of h voxel_size cloud ` set (inside_indices bbox cloud)"
    and out: "voxelizeAroundPosition h voxel_size bbox cloud =
       Inr \<lparr>points = map ((!) (points cloud)) (outside_indices bbox cloud)
                      @ map (\<lambda>k. mean_point cloud (voxel_members h voxel_size bbox cloud k)) ks,
            normals = (if HasNormals cloud
                       then map ((!) (normals cloud)) (outside_indices bbox cloud)
                            @ map (\<lambda>k. valid_normals_over_all cloud (voxel_members h voxel_size bbox cloud k)) ks
                       else []),
            colors = (if HasColors cloud
                      then map ((!) (colors cloud)) (outside_indices bbox cloud)
                           @ map (\<lambda>k. mean_color cloud (voxel_members h voxel_size bbox cloud k)) ks
                      else [])\<rparr>"
    using voxelize_output [OF positive_double [OF assms(1)] assms(2) assms(3), of bbox] by blast
  have "\<exists>ks output. voxelizeAroundPosition h voxel_size bbox cloud = Inr output
      \<and> distinct ks \<and> set ks = voxel_of h voxel_size cloud ` set (inside_indices bbox cloud)
      \<and> drop (length (outside_indices bbox cloud)) (points output) =
          map (\<lambda>k. mean_point cloud (voxel_members h voxel_size bbox cloud k)) ks
      \<and> drop (length (outside_indices bbox cloud)) (normals output) =
          map (\<lambda>k. valid_normals_over_all cloud (voxel_members h voxel_size bbox cloud k)) ks"
    apply (rule exI [of _ ks])
    apply (rule exI)
    apply (rule conjI [OF out])
    apply (simp add: ks assms(4))
    done
  then show ?thesis
    using averages_fold_AddPoint(1) [of cloud "is"] averages_fold_AddPoint(2) [OF assms(4), of "is"]
    by blast
qed

lemma example_members: "voxel_members example_helpers (Fin 1) example_bbox example_scan (0, 0, 0) = [0, 1]"
  unfolding voxel_members_def example_inside
  by (simp add: voxel_of_def Let_def example_voxel_defs max_double_def zero_double_def)

lemma example_normal_over_all:
  "valid_normals_over_all example_scan [0, 1] = Vector3d (Fin (1 / 2)) (Fin 0) (Fin 0)"
  by (simp add: valid_normals_over_all_def vec_sum_def valid_normal_def vec_div_def double_of_int_def
      plus_Vector3d_def zero_double_def example_scan_def)

lemma example_normal_over_valid:
  "mean_of_valid_normals example_scan [0, 1] = Vector3d (Fin 1) (Fin 0) (Fin 0)"
  by (simp add: mean_of_valid_normals_def vec_sum_def valid_normal_def vec_div_def double_of_int_def
      plus_Vector3d_def zero_double_def example_scan_def)

lemma example_mean_point:
  "mean_point example_scan [0, 1] = Vector3d (Fin (1 / 4)) (Fin 0) (Fin 0)"
  by (simp add: mean_point_def vec_sum_def vec_div_def double_of_int_def
      plus_Vector3d_def zero_double_def example_scan_def)

theorem voxelizeAroundPosition_voxel_average_witness:
  "(0::double) < Fin 1
   \<and> \<not> Fin 1 * double_of_int INT_MAX < voxel_extent example_helpers (Fin 1) example_scan
   \<and> (\<forall>m. mset (traverse example_helpers m) = mset m)
   \<and> HasNormals example_scan
   \<and> GetAveragePoint (fold (AddPoint example_scan) [0, 1] AccumulatedPoint_init) =
       Vector3d (Fin (1 / 4)) (Fin 0) (Fin 0)
   \<and> GetAverageNormal (fold (AddPoint example_scan) [0, 1] AccumulatedPoint_init) =
       Vector3d (Fin (1 / 2)) (Fin 0) (Fin 0)"
  using voxelizeAroundPosition_voxel_average [OF example_positive example_in_range example_traverse
      example_HasNormals, of example_bbox "[0, 1]"]
    example_positive example_in_range example_traverse example_HasNormals
    example_normal_over_all example_mean_point
  by simp

theorem voxel_normal_counterexample:
  "HasNormals example_scan
   \<and> voxel_members example_helpers (Fin 1) example_bbox example_scan (0, 0, 0) = [0, 1]
   \<and> GetAverageNormal (fold (AddPoint example_scan) [0, 1] AccumulatedPoint_init) =
       Vector3d (Fin (1 / 2)) (Fin 0) (Fin 0)
   \<and> mean_of_valid_normals example_scan [0, 1] = Vector3d (Fin 1) (Fin 0) (Fin 0)
   \<and> GetAverageNormal (fold (AddPoint example_scan) [0, 1] AccumulatedPoint_init) \<noteq>
       mean_of_valid_normals example_scan [0, 1]
   \<and> voxelizeAroundPosition example_helpers (Fin 1) example_bbox example_scan =
       Inr \<lparr>points = [Vector3d (Fin 5) (Fin 5) (Fin 5), Vector3d (Fin (3 / 2)) (Fin 0) (Fin 0),
                      Vector3d (Fin (1 / 4)) (Fin 0) (Fin 0)],
            normals = [Vector3d (Fin 0) (Fin 0) (Fin 1), Vector3d (Fin 0) (Fin 1) (Fin 0),
                       Vector3d (Fin (1 / 2)) (Fin 0) (Fin 0)],
            colors = []\<rparr>"
  using example_HasNormals example_members example_normal_over_valid example_normal_over_all
    averages_fold_AddPoint(2) [OF example_HasNormals, of "[0, 1]"] example_voxelize
  by simp

section \<open>The mean on finite coordinates\<close>

text \<open>
  On vectors without \<open>NaN\<close> coefficients the sum is the coefficient-wise sum of real numbers,
  so \<open>mean_point\<close> of a non-empty list of indices of such points is the arithmetic mean of
  their positions.
\<close>

lemma foldl_plus_finite:
  "\<forall>v \<in> set vs. valid_normal v \<Longrightarrow>
     foldl (+) (Vector3d (Fin a) (Fin b) (Fin c)) vs =
       Vector3d (Fin (a + (\<Sum>v\<leftarrow>vs. real_of_double (vec_x v))))
                (Fin (b + (\<Sum>v\<leftarrow>vs. real_of_double (vec_y v))))
                (Fin (c + (\<Sum>v\<leftarrow>vs. real_of_double (vec_z v))))"
proof (induction vs arbitrary: a b c)
  case Nil
  then show ?case by simp
next
  case (Cons v vs)
  obtain x y z where v: "v = Vector3d x y z"
    by (cases v)
  from Cons.prems have "valid_normal v"
    by simp
  then obtain p q r where xyz: "x = Fin p" "y = Fin q" "z = Fin r"
    unfolding v valid_normal_def by (cases x; cases y; cases z) simp_all
  have rest: "\<forall>w \<in> set vs. valid_normal w"
    using Cons.prems by simp
  show ?case
    using Cons.IH [OF rest, of "a + p" "b + q" "c + r"]
    by (simp add: v xyz plus_Vector3d_def add.assoc)
qed

lemma vec_sum_finite:
  "\<forall>v \<in> set vs. valid_normal v \<Longrightarrow>
     vec_sum vs = Vector3d (Fin (\<Sum>v\<leftarrow>vs. real_of_double (vec_x v)))
                           (Fin (\<Sum>v\<leftarrow>vs. real_of_double (vec_y v)))
                           (Fin (\<Sum>v\<leftarrow>vs. real_of_double (vec_z v)))"
  using foldl_plus_finite [of vs 0 0 0] by (simp add: vec_sum_def zero_double_def)

lemma mean_point_finite:
  assumes "is \<noteq> []" and "\<forall>i \<in> set is. valid_normal (points cloud ! i)"
  shows "mean_point cloud is =
     Vector3d (Fin ((\<Sum>i\<leftarrow>is. real_of_double (vec_x (points cloud ! i))) / real (length is)))
              (Fin ((\<Sum>i\<leftarrow>is. real_of_double (vec_y (points cloud ! i))) / real (length is)))
              (Fin ((\<Sum>i\<leftarrow>is. real_of_double (vec_z (points cloud ! i))) / real (length is)))"
proof -
  have "\<forall>v \<in> set (map ((!) (points cloud)) is). valid_normal v"
    using assms(2) by simp
  then show ?thesis
    using assms(1)
    by (simp add: mean_point_def vec_sum_finite vec_div_def double_of_int_def o_def)
qed

end
